theory Spec2Isabelle
  imports Main "HOL-Library.Sublist" "HOL-Library.Multiset"
begin

unbundle bit_operations_syntax

section \<open>JavaScript values\<close>

text \<open>
  The dashboard is untyped JavaScript: a registration, a search term, a response body or a
  cookie can be any value. Values are modelled by the datatype below. An object is the list
  of its own enumerable properties in iteration order, with pairwise distinct keys (the first
  binding of a key is the one that is read). Numbers are only compared and passed on, never
  computed with, and are modelled as integers.
\<close>

datatype jsval =
    JUndefined
  | JNull
  | JBool bool
  | JNum int
  | JStr string
  | JArr "jsval list"
  | JObj "(string \<times> jsval) list"

datatype js_error = TypeError | SyntaxError | NetworkError

type_synonym js_object = "(string \<times> jsval) list"

text \<open>Sequencing of computations that may throw: the first error wins.\<close>

definition and_then :: "js_error + 'a \<Rightarrow> ('a \<Rightarrow> js_error + 'b) \<Rightarrow> js_error + 'b" where
  "and_then r f = (case r of Inl e \<Rightarrow> Inl e | Inr x \<Rightarrow> f x)"

text \<open>\<^verbatim>\<open>!v\<close> is false exactly for the truthy values.\<close>

fun truthy :: "jsval \<Rightarrow> bool" where
  "truthy JUndefined = False"
| "truthy JNull = False"
| "truthy (JBool b) = b"
| "truthy (JNum n) = (n \<noteq> 0)"
| "truthy (JStr s) = (s \<noteq> [])"
| "truthy (JArr xs) = True"
| "truthy (JObj kvs) = True"

fun typeof :: "jsval \<Rightarrow> string" where
  "typeof JUndefined = ''undefined''"
| "typeof JNull = ''object''"
| "typeof (JBool b) = ''boolean''"
| "typeof (JNum n) = ''number''"
| "typeof (JStr s) = ''string''"
| "typeof (JArr xs) = ''object''"
| "typeof (JObj kvs) = ''object''"

text \<open>
  \<^verbatim>\<open>v.name\<close> for the data property names the dashboard reads (\<^verbatim>\<open>model_name\<close>,
  \<^verbatim>\<open>model_description\<close>, \<^verbatim>\<open>model_ability\<close>, \<^verbatim>\<open>model_type\<close>, \<^verbatim>\<open>is_builtin\<close>, \<^verbatim>\<open>detail\<close>,
  \<^verbatim>\<open>headers\<close>, ...), none of which is a built-in member of a primitive or of an array:
  reading from \<^verbatim>\<open>undefined\<close> or \<^verbatim>\<open>null\<close> throws, reading from an object looks the key up,
  reading from anything else gives \<^verbatim>\<open>undefined\<close>.
\<close>

definition obj_get :: "js_object \<Rightarrow> string \<Rightarrow> jsval" where
  "obj_get kvs k = (case map_of kvs k of None \<Rightarrow> JUndefined | Some v \<Rightarrow> v)"

fun get_prop :: "jsval \<Rightarrow> string \<Rightarrow> js_error + jsval" where
  "get_prop JUndefined k = Inl TypeError"
| "get_prop JNull k = Inl TypeError"
| "get_prop (JObj kvs) k = Inr (obj_get kvs k)"
| "get_prop v k = Inr JUndefined"

text \<open>
  Assignment to a property, and a property written after a spread in an object literal:
  an existing key keeps its place and takes the new value, a new key goes last (the keys
  that the dashboard writes are names, not array indices).
\<close>

fun obj_set :: "js_object \<Rightarrow> string \<Rightarrow> jsval \<Rightarrow> js_object" where
  "obj_set [] k v = [(k, v)]"
| "obj_set ((k', v') # kvs) k v =
     (if k' = k then (k, v) # kvs else (k', v') # obj_set kvs k v)"

text \<open>Decimal rendering of an array or string index.\<close>

fun string_of_nat :: "nat \<Rightarrow> string" where
  "string_of_nat n =
     (if n < 10 then [''0123456789'' ! n]
      else string_of_nat (n div 10) @ [''0123456789'' ! (n mod 10)])"

declare string_of_nat.simps [simp del]

text \<open>
  The own enumerable properties of a value, as \<^verbatim>\<open>{...v}\<close> copies them and as
  \<^verbatim>\<open>Object.entries(v)\<close> lists them: the properties of an object, the indexed elements of
  an array, the indexed characters of a string, nothing for the other primitives.
\<close>

definition indexed :: "'a list \<Rightarrow> (string \<times> 'a) list" where
  "indexed xs = zip (map string_of_nat [0..<length xs]) xs"

fun own_entries :: "jsval \<Rightarrow> js_object" where
  "own_entries (JObj kvs) = kvs"
| "own_entries (JArr xs) = indexed xs"
| "own_entries (JStr s) = indexed (map (\<lambda>c. JStr [c]) s)"
| "own_entries v = []"

text \<open>\<^verbatim>\<open>{...v}\<close>: spreading \<^verbatim>\<open>undefined\<close> or \<^verbatim>\<open>null\<close> gives the empty object.\<close>

definition spread :: "jsval \<Rightarrow> js_object" where
  "spread v = own_entries v"

text \<open>\<^verbatim>\<open>Object.entries(v)\<close> throws on \<^verbatim>\<open>undefined\<close> and \<^verbatim>\<open>null\<close>.\<close>

fun object_entries :: "jsval \<Rightarrow> js_error + js_object" where
  "object_entries JUndefined = Inl TypeError"
| "object_entries JNull = Inl TypeError"
| "object_entries v = Inr (own_entries v)"

text \<open>
  \<^verbatim>\<open>JSON.stringify\<close> of an object literal: the text is represented by the object it denotes,
  in which a property whose value is \<^verbatim>\<open>undefined\<close> is left out.
\<close>

definition json_stringify :: "js_object \<Rightarrow> jsval" where
  "json_stringify kvs = JObj (filter (\<lambda>(k, v). v \<noteq> JUndefined) kvs)"

section \<open>Strings\<close>

text \<open>
  \<^verbatim>\<open>toLowerCase\<close> on the letters A to Z; characters are 8-bit, and the letters outside
  ASCII, which JavaScript maps by the Unicode tables, are left as they are.
\<close>

definition lower_char :: "char \<Rightarrow> char" where
  "lower_char c =
     (case map_of (zip ''ABCDEFGHIJKLMNOPQRSTUVWXYZ'' ''abcdefghijklmnopqrstuvwxyz'') c of
        None \<Rightarrow> c | Some d \<Rightarrow> d)"

definition toLowerCase :: "string \<Rightarrow> string" where
  "toLowerCase s = map lower_char s"

text \<open>\<^verbatim>\<open>v.toLowerCase()\<close>: only a string has the method.\<close>

fun call_toLowerCase :: "jsval \<Rightarrow> js_error + string" where
  "call_toLowerCase (JStr s) = Inr (toLowerCase s)"
| "call_toLowerCase v = Inl TypeError"

text \<open>\<^verbatim>\<open>s.includes(t)\<close>: \<^verbatim>\<open>t\<close> occurs in \<^verbatim>\<open>s\<close> as a contiguous substring.\<close>

fun str_includes :: "string \<Rightarrow> string \<Rightarrow> bool" where
  "str_includes [] t = (t = [])"
| "str_includes (c # cs) t = (prefix t (c # cs) \<or> str_includes cs t)"

text \<open>\<^verbatim>\<open>s.indexOf(t)\<close>: the first position where \<^verbatim>\<open>t\<close> occurs, or -1.\<close>

fun str_indexOf :: "string \<Rightarrow> string \<Rightarrow> int" where
  "str_indexOf [] t = (if t = [] then 0 else - 1)"
| "str_indexOf (c # cs) t =
     (if prefix t (c # cs) then 0
      else (let i = str_indexOf cs t in if i < 0 then - 1 else i + 1))"

text \<open>\<^verbatim>\<open>xs.indexOf(v)\<close> on an array, for a string \<^verbatim>\<open>v\<close>: strict equality, first match.\<close>

fun arr_indexOf :: "jsval list \<Rightarrow> jsval \<Rightarrow> int" where
  "arr_indexOf [] v = - 1"
| "arr_indexOf (x # xs) v =
     (if x = v then 0
      else (let i = arr_indexOf xs v in if i < 0 then - 1 else i + 1))"

text \<open>
  \<^verbatim>\<open>v.indexOf(s)\<close>: arrays and strings have the method; on anything else the call throws
  (a value parsed from JSON holds no function).
\<close>

fun call_indexOf :: "jsval \<Rightarrow> string \<Rightarrow> js_error + int" where
  "call_indexOf (JArr xs) s = Inr (arr_indexOf xs (JStr s))"
| "call_indexOf (JStr t) s = Inr (str_indexOf t s)"
| "call_indexOf v s = Inl TypeError"

section \<open>Client-side filters\<close>

text \<open>
  \<^verbatim>\<open>registration.f ? registration.f.toLowerCase() : ''\<close>, for a registration that is
  neither \<^verbatim>\<open>undefined\<close> nor \<^verbatim>\<open>null\<close>.
\<close>

definition lowered_field :: "jsval \<Rightarrow> string \<Rightarrow> js_error + string" where
  "lowered_field registration f =
     and_then (get_prop registration f)
       (\<lambda>v. if truthy v then call_toLowerCase v else Inr [])"

text \<open>
  The filter of LaunchLLM and of the LaunchModel view with an ability selector (the two
  bodies are the same). \<^verbatim>\<open>searchTerm\<close> and \<^verbatim>\<open>modelAbility\<close> are the component's state;
  the selector is a string, set from the entries of the select box.
\<close>

definition filter_LaunchLLM :: "jsval \<Rightarrow> string \<Rightarrow> jsval \<Rightarrow> js_error + bool" where
  "filter_LaunchLLM searchTerm modelAbility registration =
     (if \<not> truthy registration then Inr False
      else if typeof searchTerm \<noteq> ''string'' then Inr False
      else
        and_then (lowered_field registration ''model_name'') (\<lambda>modelName.
        and_then (lowered_field registration ''model_description'') (\<lambda>modelDescription.
        and_then (call_toLowerCase searchTerm) (\<lambda>needle.
          if \<not> str_includes modelName needle \<and> \<not> str_includes modelDescription needle
          then Inr False
          else if modelAbility \<noteq> [] \<and> modelAbility \<noteq> ''all''
          then
            and_then (get_prop registration ''model_ability'') (\<lambda>abilities.
            and_then (call_indexOf abilities modelAbility) (\<lambda>i.
              if i < 0 then Inr False else Inr True))
          else Inr True))))"

text \<open>The filter of LaunchImage and of LaunchEmbedding (the two bodies are the same).\<close>

definition filter_LaunchImage :: "jsval \<Rightarrow> jsval \<Rightarrow> js_error + bool" where
  "filter_LaunchImage searchTerm registration =
     (if \<not> truthy registration then Inr False
      else if typeof searchTerm \<noteq> ''string'' then Inr False
      else
        and_then (lowered_field registration ''model_name'') (\<lambda>modelName.
        and_then (call_toLowerCase searchTerm) (\<lambda>needle.
          Inr (str_includes modelName needle))))"

text \<open>
  The filter of the LaunchModel view without an ability selector: no guard, and the fields
  are lowered without a test. The left operand of \<^verbatim>\<open>&&\<close> is evaluated first, and in it
  the receiver \<^verbatim>\<open>registration.model_name.toLowerCase()\<close> before the argument.
\<close>

definition filter_LaunchModel :: "jsval \<Rightarrow> jsval \<Rightarrow> js_error + bool" where
  "filter_LaunchModel searchTerm registration =
     and_then (get_prop registration ''model_name'') (\<lambda>name.
     and_then (call_toLowerCase name) (\<lambda>modelName.
     and_then (call_toLowerCase searchTerm) (\<lambda>needle.
       if \<not> str_includes modelName needle
       then
         and_then (get_prop registration ''model_description'') (\<lambda>description.
         and_then (call_toLowerCase description) (\<lambda>modelDescription.
         and_then (call_toLowerCase searchTerm) (\<lambda>needle'.
           if \<not> str_includes modelDescription needle' then Inr False else Inr True)))
       else Inr True)))"

section \<open>Conversion to text\<close>

text \<open>
  String concatenation with \<^verbatim>\<open>+\<close> and template literals convert a value to text first:
  \<^verbatim>\<open>'Bearer ' + undefined\<close> is \<^verbatim>\<open>'Bearer undefined'\<close>.
\<close>

definition string_of_int :: "int \<Rightarrow> string" where
  "string_of_int n = (if n < 0 then CHR ''-'' # string_of_nat (nat (- n)) else string_of_nat (nat n))"

fun join_commas :: "string list \<Rightarrow> string" where
  "join_commas [] = []"
| "join_commas [s] = s"
| "join_commas (s # t # ts) = s @ '','' @ join_commas (t # ts)"

fun js_to_string :: "jsval \<Rightarrow> string" where
  "js_to_string JUndefined = ''undefined''"
| "js_to_string JNull = ''null''"
| "js_to_string (JBool b) = (if b then ''true'' else ''false'')"
| "js_to_string (JNum n) = string_of_int n"
| "js_to_string (JStr s) = s"
| "js_to_string (JArr xs) =
     join_commas (map (\<lambda>x. if x = JUndefined then [] else if x = JNull then [] else js_to_string x) xs)"
| "js_to_string (JObj kvs) = ''[object Object]''"

text \<open>\<^verbatim>\<open>s.trim()\<close> on the ASCII white space characters.\<close>

definition is_space :: "char \<Rightarrow> bool" where
  "is_space c = (c \<in> set [CHR '' '', CHR 0x09, CHR 0x0A, CHR 0x0B, CHR 0x0C, CHR 0x0D])"

definition trim :: "string \<Rightarrow> string" where
  "trim s = rev (dropWhile is_space (rev (dropWhile is_space s)))"

section \<open>The page, the shared context and the transport\<close>

text \<open>
  What a handler does to the world outside of the component state is recorded, in order,
  in a list of events. A call of \<^verbatim>\<open>fetch\<close> records the URL and the options it was given;
  an exception that no handler catches is recorded as \<open>Uncaught\<close>. The payloads of the
  console calls are not recorded.
\<close>

datatype event =
    Fetch string js_object
  | WindowOpen string string string
  | Navigate string
  | ConsoleLog
  | ConsoleError
  | Uncaught js_error

text \<open>
  The answer of the server to one request is a parameter of the handler that issues it:
  the request fails in the transport (the promise of \<^verbatim>\<open>fetch\<close> is rejected), or a response
  arrives, with a status and a body that \<^verbatim>\<open>response.json()\<close> parses
  (\<open>None\<close>: the body is not JSON and the promise of \<^verbatim>\<open>json()\<close> is rejected).
\<close>

datatype fetch_result = Failed | Response int "jsval option"

fun response_json :: "fetch_result \<Rightarrow> js_error + jsval" where
  "response_json Failed = Inl NetworkError"
| "response_json (Response status None) = Inl SyntaxError"
| "response_json (Response status (Some v)) = Inr v"

text \<open>\<^verbatim>\<open>response.ok\<close>: the status is in the range 200 to 299.\<close>

definition response_ok :: "int \<Rightarrow> bool" where
  "response_ok status = (200 \<le> status \<and> status \<le> 299)"

text \<open>The error slot of the shared context: empty, or the message of a server error.\<close>

datatype error_msg = NoErrorMsg | ServerError int jsval

record page =
  endPoint :: string
  cookies :: "(string \<times> string) list"
  effects :: "event list"

text \<open>
  The shared context (ApiContext): the two in-flight flags and the error slot. A view
  extends the record by its own state.
\<close>

record client = page +
  isCallingApi :: bool
  isUpdatingModel :: bool
  errorMsg :: error_msg

definition emit :: "event \<Rightarrow> 'a page_scheme \<Rightarrow> 'a page_scheme" where
  "emit e st = st\<lparr>effects := effects st @ [e]\<rparr>"

text \<open>The network calls among the events, in order.\<close>

fun is_fetch :: "event \<Rightarrow> bool" where
  "is_fetch (Fetch url options) = True"
| "is_fetch e = False"

fun is_open :: "event \<Rightarrow> bool" where
  "is_open (WindowOpen url target features) = True"
| "is_open e = False"

definition network_calls :: "event list \<Rightarrow> event list" where
  "network_calls es = filter is_fetch es"

section \<open>HTTP client wrapper\<close>

text \<open>
  \<^verbatim>\<open>cookies.get(name)\<close>: the stored value, or \<^verbatim>\<open>undefined\<close>. The cookie store maps
  names to text.
\<close>

definition cookies_get :: "(string \<times> string) list \<Rightarrow> string \<Rightarrow> jsval" where
  "cookies_get store name = (case map_of store name of None \<Rightarrow> JUndefined | Some s \<Rightarrow> JStr s)"

definition updateOptions :: "(string \<times> string) list \<Rightarrow> string \<Rightarrow> jsval \<Rightarrow> js_object" where
  "updateOptions store url options =
     (let update = spread options in
      if cookies_get store ''token'' \<noteq> JStr ''no_auth''
      then obj_set update ''headers''
             (JObj (obj_set (spread (obj_get update ''headers'')) ''Authorization''
                      (JStr (''Bearer '' @ js_to_string (cookies_get store ''token'')))))
      else update)"

text \<open>\<^verbatim>\<open>fetcher(url, options)\<close>: the call of the transport it makes.\<close>

definition fetcher :: "string \<Rightarrow> jsval \<Rightarrow> 'a page_scheme \<Rightarrow> 'a page_scheme" where
  "fetcher url options st = emit (Fetch url (updateOptions (cookies st) url options)) st"

text \<open>\<^verbatim>\<open>fetch(url, options)\<close> with an object literal for the options.\<close>

definition fetch :: "string \<Rightarrow> js_object \<Rightarrow> 'a page_scheme \<Rightarrow> 'a page_scheme" where
  "fetch url options st = emit (Fetch url options) st"

definition json_headers :: jsval where
  "json_headers = JObj [(''Content-Type'', JStr ''application/json'')]"

section \<open>Launch from an audio card\<close>

text \<open>
  \<^verbatim>\<open>launchModel\<close> of AudioCard. \<^verbatim>\<open>modelUID\<close> is the card's text field. The promise of
  \<^verbatim>\<open>response.json()\<close> in the error branch is settled after the callback that started it
  has returned, so the error slot is written after the flag is cleared; when the body is
  not an object with a readable \<^verbatim>\<open>detail\<close>, that promise is rejected and nothing catches it.
  The message is kept as the two values that the template puts into its text.
\<close>

definition AudioCard_report :: "int \<Rightarrow> jsval option \<Rightarrow> 'a client_scheme \<Rightarrow> 'a client_scheme" where
  "AudioCard_report status body st =
     (case and_then (response_json (Response status body)) (\<lambda>errorData. get_prop errorData ''detail'') of
        Inl e \<Rightarrow> emit (Uncaught e) st
      | Inr detail \<Rightarrow>
          st\<lparr>errorMsg := ServerError status (if truthy detail then detail else JStr ''Unknown error'')\<rparr>)"

definition AudioCard_launchModel ::
    "fetch_result \<Rightarrow> string \<Rightarrow> jsval \<Rightarrow> string \<Rightarrow> 'a client_scheme \<Rightarrow> 'a client_scheme" where
  "AudioCard_launchModel result url modelData modelUID st =
     (if isCallingApi st then st
      else if isUpdatingModel st then st
      else
        let st1 = st\<lparr>isCallingApi := True\<rparr> in
        case get_prop modelData ''model_name'' of
          Inl e \<Rightarrow> emit (Uncaught e) st1
        | Inr model_name \<Rightarrow>
            let modelDataWithID =
                  [(''model_uid'', if trim modelUID = [] then JNull else JStr (trim modelUID)),
                   (''model_name'', model_name),
                   (''model_type'', JStr ''audio'')];
                st2 = fetcher (url @ ''/v1/models'')
                        (JObj [(''method'', JStr ''POST''),
                               (''headers'', json_headers),
                               (''body'', json_stringify modelDataWithID)]) st1
            in (case result of
                  Failed \<Rightarrow> (emit ConsoleError st2)\<lparr>isCallingApi := False\<rparr>
                | Response status body \<Rightarrow>
                    if \<not> response_ok status
                    then AudioCard_report status body (st2\<lparr>isCallingApi := False\<rparr>)
                    else (emit (Navigate ''/running_models'') st2)\<lparr>isCallingApi := False\<rparr>))"

section \<open>Launch from a model card, in two steps\<close>

text \<open>
  \<^verbatim>\<open>launchModel\<close> of ModelCard. \<open>uuid\<close> is the value that the one call of \<^verbatim>\<open>uuidv1()\<close>
  returns. \<open>first\<close> and \<open>second\<close> are the answers to the two requests. Both
  \<^verbatim>\<open>response.json()\<close> calls are made and dropped: the callbacks return nothing, so the next
  callback runs whatever the body is, and only a rejected \<^verbatim>\<open>fetch\<close> reaches the catch.
\<close>

definition ModelCard_launchModel ::
    "string \<Rightarrow> fetch_result \<Rightarrow> fetch_result \<Rightarrow> string \<Rightarrow> jsval \<Rightarrow> 'a client_scheme \<Rightarrow> 'a client_scheme" where
  "ModelCard_launchModel uuid first second url jsonData st =
     (let st1 = st\<lparr>isCallingApi := True\<rparr>;
          jsonDataWithID = obj_set (obj_set (spread jsonData) ''model_uid'' (JStr uuid)) ''endpoint'' (JStr url);
          st2 = emit ConsoleLog st1;
          st3 = fetch (url @ ''/v1/models'')
                  [(''method'', JStr ''POST''),
                   (''headers'', json_headers),
                   (''body'', json_stringify jsonDataWithID)] st2
      in (case first of
           Failed \<Rightarrow> (emit ConsoleError st3)\<lparr>isCallingApi := False\<rparr>
         | Response status1 body1 \<Rightarrow>
             let st4 = emit ConsoleLog st3;
                 st5 = emit ConsoleLog (emit ConsoleLog st4);
                 st6 = fetch (url @ ''/v1/gradio/'' @ uuid)
                         [(''method'', JStr ''POST''),
                          (''headers'', json_headers),
                          (''body'', json_stringify jsonDataWithID)] st5
             in (case second of
                   Failed \<Rightarrow> (emit ConsoleError st6)\<lparr>isCallingApi := False\<rparr>
                 | Response status2 body2 \<Rightarrow>
                     (let st7 = emit ConsoleLog st6;
                          st8 = emit ConsoleLog (emit ConsoleLog st7);
                          st9 = emit (WindowOpen (url @ ''/'' @ uuid) ''_blank'' ''noreferrer'') st8
                      in st9\<lparr>isCallingApi := False\<rparr>))))"

text \<open>
  The launch button of ModelCard: \<^verbatim>\<open>disabled={isCallingApi | isUpdatingModel}\<close>. The
  bitwise \<^verbatim>\<open>|\<close> turns each flag into 0 or 1, and the attribute is set when the result
  is truthy. A disabled button delivers no click, so its \<^verbatim>\<open>onClick\<close> runs
  \<^verbatim>\<open>launchModel\<close> only when the attribute is not set.
\<close>

definition ModelCard_disabled :: "'a client_scheme \<Rightarrow> bool" where
  "ModelCard_disabled st =
     truthy (JNum (of_bool (isCallingApi st) OR of_bool (isUpdatingModel st)))"

definition ModelCard_onClick ::
    "string \<Rightarrow> fetch_result \<Rightarrow> fetch_result \<Rightarrow> string \<Rightarrow> jsval \<Rightarrow> 'a client_scheme \<Rightarrow> 'a client_scheme" where
  "ModelCard_onClick uuid first second url jsonData st =
     (if ModelCard_disabled st then st
      else ModelCard_launchModel uuid first second url jsonData st)"

section \<open>Running models: list synchronisation\<close>

record running_models = client +
  llmData :: "js_object list"
  embeddingModelData :: "js_object list"
  imageModelData :: "js_object list"
  rerankModelData :: "js_object list"

definition loading_row :: js_object where
  "loading_row = [(''id'', JStr ''Loading, do not refresh page...''), (''url'', JStr ''IS_LOADING'')]"

text \<open>\<^verbatim>\<open>{...value, id: key, url: key}\<close>\<close>

definition new_row :: "string \<Rightarrow> jsval \<Rightarrow> js_object" where
  "new_row key value = obj_set (obj_set (spread value) ''id'' (JStr key)) ''url'' (JStr key)"

text \<open>The four arrays that the callback of \<^verbatim>\<open>forEach\<close> pushes to.\<close>

record buckets =
  newLlmData :: "js_object list"
  newEmbeddingModelData :: "js_object list"
  newImageModelData :: "js_object list"
  newRerankModelData :: "js_object list"

definition empty_buckets :: buckets where
  "empty_buckets =
     \<lparr>newLlmData = [], newEmbeddingModelData = [], newImageModelData = [], newRerankModelData = []\<rparr>"

definition push_entry :: "string \<times> jsval \<Rightarrow> buckets \<Rightarrow> buckets" where
  "push_entry entry b =
     (let newValue = new_row (fst entry) (snd entry) in
      if obj_get newValue ''model_type'' = JStr ''LLM''
      then b\<lparr>newLlmData := newLlmData b @ [newValue]\<rparr>
      else if obj_get newValue ''model_type'' = JStr ''embedding''
      then b\<lparr>newEmbeddingModelData := newEmbeddingModelData b @ [newValue]\<rparr>
      else if obj_get newValue ''model_type'' = JStr ''image''
      then b\<lparr>newImageModelData := newImageModelData b @ [newValue]\<rparr>
      else if obj_get newValue ''model_type'' = JStr ''rerank''
      then b\<lparr>newRerankModelData := newRerankModelData b @ [newValue]\<rparr>
      else b)"

fun for_each_entry :: "js_object \<Rightarrow> buckets \<Rightarrow> buckets" where
  "for_each_entry [] b = b"
| "for_each_entry (entry # entries) b = for_each_entry entries (push_entry entry b)"

text \<open>
  The callback that receives the parsed body: it throws when \<^verbatim>\<open>Object.entries\<close> does,
  before any list is written.
\<close>

definition partition_models :: "jsval \<Rightarrow> js_error + buckets" where
  "partition_models data =
     and_then (object_entries data) (\<lambda>entries. Inr (for_each_entry entries empty_buckets))"

text \<open>
  \<^verbatim>\<open>update(isCallingApi)\<close> of RunningModels; with the argument false it is the refresh
  of the list. \<open>result\<close> is the answer to the GET. The status of the response is not
  looked at.
\<close>

definition RunningModels_update :: "fetch_result \<Rightarrow> bool \<Rightarrow> running_models \<Rightarrow> running_models" where
  "RunningModels_update result calling st =
     (if calling
      then st\<lparr>llmData := [loading_row],
              embeddingModelData := [loading_row],
              imageModelData := [loading_row],
              rerankModelData := [loading_row]\<rparr>
      else
        let st1 = st\<lparr>isUpdatingModel := True\<rparr>;
            st2 = fetch (endPoint st1 @ ''/v1/models/'') [(''method'', JStr ''GET'')] st1
        in (case and_then (response_json result) partition_models of
              Inr b \<Rightarrow>
                st2\<lparr>llmData := newLlmData b,
                     embeddingModelData := newEmbeddingModelData b,
                     imageModelData := newImageModelData b,
                     rerankModelData := newRerankModelData b,
                     isUpdatingModel := False\<rparr>
            | Inl error \<Rightarrow> (emit ConsoleError st2)\<lparr>isUpdatingModel := False\<rparr>))"

text \<open>
  \<^verbatim>\<open>useEffect(() => update(isCallingApi), [isCallingApi])\<close>: after a handler or the
  callbacks of a settled promise have run, the component is rendered again, and the effect
  runs when the flag differs from its value at the previous rendering. \<open>before\<close> is that
  value; \<open>list\<close> is the answer to the GET that the effect may issue.
\<close>

definition RunningModels_effect :: "fetch_result \<Rightarrow> bool \<Rightarrow> running_models \<Rightarrow> running_models" where
  "RunningModels_effect list before st =
     (if isCallingApi st = before then st else RunningModels_update list (isCallingApi st) st)"

section \<open>Running models: terminate and open the web UI\<close>

text \<open>The URLs that \<^verbatim>\<open>renderCell\<close> builds from the row.\<close>

definition openUrl :: "'a page_scheme \<Rightarrow> js_object \<Rightarrow> string" where
  "openUrl st row = endPoint st @ ''/'' @ js_to_string (obj_get row ''url'')"

definition closeUrl :: "'a page_scheme \<Rightarrow> js_object \<Rightarrow> string" where
  "closeUrl st row = endPoint st @ ''/v1/models/'' @ js_to_string (obj_get row ''url'')"

definition gradioUrl :: "'a page_scheme \<Rightarrow> js_object \<Rightarrow> string" where
  "gradioUrl st row = endPoint st @ ''/v1/ui/'' @ js_to_string (obj_get row ''url'')"

text \<open>
  The Terminate Model button of a row. \<open>del\<close> is the answer to the DELETE. The call of
  \<^verbatim>\<open>response.json()\<close> is made and dropped.
\<close>

definition RunningModels_terminate_settled :: "fetch_result \<Rightarrow> running_models \<Rightarrow> running_models" where
  "RunningModels_terminate_settled del st =
     (case del of
        Failed \<Rightarrow> (emit ConsoleError st)\<lparr>isCallingApi := False\<rparr>
      | Response status body \<Rightarrow> st\<lparr>isCallingApi := False\<rparr>)"

definition RunningModels_terminate ::
    "fetch_result \<Rightarrow> fetch_result \<Rightarrow> js_object \<Rightarrow> running_models \<Rightarrow> running_models" where
  "RunningModels_terminate del list row st =
     (if isCallingApi st then st
      else if isUpdatingModel st then st
      else
        let st1 = st\<lparr>isCallingApi := True\<rparr>;
            st2 = fetch (closeUrl st row) [(''method'', JStr ''DELETE'')] st1;
            st3 = RunningModels_effect list (isCallingApi st) st2;
            st4 = RunningModels_terminate_settled del st3
        in RunningModels_effect list (isCallingApi st3) st4)"

text \<open>The body of the POST that creates the UI: the nine fields read from the row.\<close>

definition ui_fields :: "string list" where
  "ui_fields =
     [''model_type'', ''model_name'', ''model_size_in_billions'', ''model_format'',
      ''quantization'', ''context_length'', ''model_ability'', ''model_description'',
      ''model_lang'']"

definition ui_body :: "js_object \<Rightarrow> jsval" where
  "ui_body row = json_stringify (map (\<lambda>f. (f, obj_get row f)) ui_fields)"

text \<open>
  The Launch Web UI button of a row. \<open>probe\<close> is the answer to the HEAD, \<open>create\<close> the
  answer to the POST. In the 404 branch the inner chain ends in \<^verbatim>\<open>finally\<close>, which
  clears the flag and passes a rejection on to the outer \<^verbatim>\<open>catch\<close>.
\<close>

definition RunningModels_create_settled ::
    "fetch_result \<Rightarrow> js_object \<Rightarrow> running_models \<Rightarrow> running_models" where
  "RunningModels_create_settled create row st =
     (case response_json create of
        Inr data \<Rightarrow>
          (emit (WindowOpen (openUrl st row) ''_blank'' ''noopener noreferrer'') st)
            \<lparr>isCallingApi := False\<rparr>
      | Inl error \<Rightarrow> (emit ConsoleError (st\<lparr>isCallingApi := False\<rparr>))\<lparr>isCallingApi := False\<rparr>)"

definition RunningModels_probe_settled ::
    "fetch_result \<Rightarrow> fetch_result \<Rightarrow> js_object \<Rightarrow> running_models \<Rightarrow> running_models" where
  "RunningModels_probe_settled probe create row st =
     (case probe of
        Failed \<Rightarrow> (emit ConsoleError st)\<lparr>isCallingApi := False\<rparr>
      | Response status body \<Rightarrow>
          if status = 404
          then
            let st1 = emit ConsoleLog st;
                st2 = fetch (gradioUrl st row)
                        [(''method'', JStr ''POST''),
                         (''headers'', json_headers),
                         (''body'', ui_body row)] st1
            in RunningModels_create_settled create row st2
          else if response_ok status
          then
            (emit (WindowOpen (openUrl st row) ''_blank'' ''noopener noreferrer'') (emit ConsoleLog st))
              \<lparr>isCallingApi := False\<rparr>
          else (emit ConsoleError st)\<lparr>isCallingApi := False\<rparr>)"

definition RunningModels_launchWebUI ::
    "fetch_result \<Rightarrow> fetch_result \<Rightarrow> fetch_result \<Rightarrow> js_object \<Rightarrow> running_models \<Rightarrow> running_models" where
  "RunningModels_launchWebUI probe create list row st =
     (if isCallingApi st then st
      else if isUpdatingModel st then st
      else
        let st1 = st\<lparr>isCallingApi := True\<rparr>;
            st2 = fetch (openUrl st row) [(''method'', JStr ''HEAD'')] st1;
            st3 = RunningModels_effect list (isCallingApi st) st2;
            st4 = RunningModels_probe_settled probe create row st3
        in RunningModels_effect list (isCallingApi st3) st4)"

section \<open>Model dashboard\<close>

record model_dashboard = page +
  modelData :: "js_object list"
  isCalling :: bool

text \<open>\<^verbatim>\<open>update\<close> of ModelDashboard: every entry becomes a row.\<close>

definition ModelDashboard_update :: "fetch_result \<Rightarrow> model_dashboard \<Rightarrow> model_dashboard" where
  "ModelDashboard_update result st =
     (let st1 = fetch (endPoint st @ ''/v1/models'') [(''method'', JStr ''GET'')] st
      in (case and_then (response_json result) object_entries of
            Inr entries \<Rightarrow> st1\<lparr>modelData := map (\<lambda>entry. new_row (fst entry) (snd entry)) entries\<rparr>
          | Inl error \<Rightarrow> emit ConsoleError st1))"

text \<open>The Delete button of a row of the dashboard.\<close>

definition ModelDashboard_delete ::
    "fetch_result \<Rightarrow> fetch_result \<Rightarrow> js_object \<Rightarrow> model_dashboard \<Rightarrow> model_dashboard" where
  "ModelDashboard_delete del list row st =
     (if isCalling st then st
      else
        let st1 = st\<lparr>isCalling := True\<rparr>;
            st2 = fetch (closeUrl st row) [(''method'', JStr ''DELETE'')] st1
        in (case del of
              Failed \<Rightarrow> ModelDashboard_update list ((emit ConsoleError st2)\<lparr>isCalling := False\<rparr>)
            | Response status body \<Rightarrow>
                ModelDashboard_update list ((emit ConsoleLog st2)\<lparr>isCalling := False\<rparr>)))"

section \<open>Launch views: the registration list\<close>

record launch_view = client +
  registrationData :: "jsval list"

text \<open>
  \<^verbatim>\<open>registrations.filter((v) => v.is_builtin)\<close>: only an array has the method, and the
  callback throws on an element that is \<^verbatim>\<open>null\<close>.
\<close>

fun filter_is_builtin :: "jsval list \<Rightarrow> js_error + jsval list" where
  "filter_is_builtin [] = Inr []"
| "filter_is_builtin (v # vs) =
     and_then (get_prop v ''is_builtin'') (\<lambda>keep.
     and_then (filter_is_builtin vs) (\<lambda>rest.
       Inr (if truthy keep then v # rest else rest)))"

fun builtinRegistrations :: "jsval \<Rightarrow> js_error + jsval list" where
  "builtinRegistrations (JArr vs) = filter_is_builtin vs"
| "builtinRegistrations v = Inl TypeError"

text \<open>
  The body of \<^verbatim>\<open>try\<close>, \<^verbatim>\<open>catch\<close> and \<^verbatim>\<open>finally\<close> that the three views share, after the
  request has been issued.
\<close>

definition store_builtin :: "fetch_result \<Rightarrow> launch_view \<Rightarrow> launch_view" where
  "store_builtin result st =
     (case and_then (response_json result) builtinRegistrations of
        Inr regs \<Rightarrow> st\<lparr>registrationData := regs, isCallingApi := False\<rparr>
      | Inl error \<Rightarrow> (emit ConsoleError st)\<lparr>isCallingApi := False\<rparr>)"

definition LaunchImage_update :: "fetch_result \<Rightarrow> launch_view \<Rightarrow> launch_view" where
  "LaunchImage_update result st =
     (if isCallingApi st then st
      else if isUpdatingModel st then st
      else
        store_builtin result
          (fetcher (endPoint st @ ''/v1/model_registrations/image?detailed=true'')
             (JObj [(''method'', JStr ''GET'')]) (st\<lparr>isCallingApi := True\<rparr>)))"

definition LaunchEmbedding_update :: "fetch_result \<Rightarrow> launch_view \<Rightarrow> launch_view" where
  "LaunchEmbedding_update result st =
     (if isCallingApi st then st
      else if isUpdatingModel st then st
      else
        store_builtin result
          (fetcher (endPoint st @ ''/v1/model_registrations/embedding?detailed=true'')
             (JObj [(''method'', JStr ''GET'')]) (st\<lparr>isCallingApi := True\<rparr>)))"

definition LaunchLLM_update :: "fetch_result \<Rightarrow> launch_view \<Rightarrow> launch_view" where
  "LaunchLLM_update result st =
     (if isCallingApi st then st
      else if isUpdatingModel st then st
      else
        store_builtin result
          (fetch (endPoint st @ ''/v1/model_registrations/LLM?detailed=true'')
             [(''method'', JStr ''GET'')] (st\<lparr>isCallingApi := True\<rparr>)))"

text \<open>The verdict of the callback \<^verbatim>\<open>(v) => v.is_builtin\<close> on an element it can read.\<close>

definition is_builtin :: "jsval \<Rightarrow> bool" where
  "is_builtin v = (case get_prop v ''is_builtin'' of Inl e \<Rightarrow> False | Inr keep \<Rightarrow> truthy keep)"

section \<open>Reading the recorded events\<close>

text \<open>The events that a handler adds to those recorded before it ran.\<close>

definition new_effects :: "'a page_scheme \<Rightarrow> 'b page_scheme \<Rightarrow> event list" where
  "new_effects before after = drop (length (effects before)) (effects after)"

text \<open>The events before the first window is opened.\<close>

definition before_open :: "event list \<Rightarrow> event list" where
  "before_open es = takeWhile (\<lambda>e. \<not> is_open e) es"

fun is_uncaught :: "event \<Rightarrow> bool" where
  "is_uncaught (Uncaught e) = True"
| "is_uncaught e = False"

text \<open>A text field of a registration that the filters can lower: absent, empty or a string.\<close>

definition lowerable :: "jsval \<Rightarrow> bool" where
  "lowerable v = (if truthy v then typeof v = ''string'' else True)"

text \<open>The header \<open>h\<close> of the options that a request is made with.\<close>

definition request_header :: "js_object \<Rightarrow> string \<Rightarrow> jsval" where
  "request_header options h = obj_get (spread (obj_get options ''headers'')) h"

text \<open>The rows that the entries of an instance map become, in the order of the entries.\<close>

definition rows_of :: "js_object \<Rightarrow> js_object list" where
  "rows_of entries = map (\<lambda>entry. new_row (fst entry) (snd entry)) entries"

definition model_type_is :: "string \<Rightarrow> js_object \<Rightarrow> bool" where
  "model_type_is t row = (obj_get row ''model_type'' = JStr t)"

text \<open>The four model types that have a list.\<close>

definition listed_type :: "js_object \<Rightarrow> bool" where
  "listed_type row = (\<exists>t \<in> set [''LLM'', ''embedding'', ''image'', ''rerank'']. model_type_is t row)"

text \<open>The requests of the running-models view, as they are recorded.\<close>

definition list_request :: "'a page_scheme \<Rightarrow> event" where
  "list_request st = Fetch (endPoint st @ ''/v1/models/'') [(''method'', JStr ''GET'')]"

definition probe_request :: "'a page_scheme \<Rightarrow> js_object \<Rightarrow> event" where
  "probe_request st row = Fetch (openUrl st row) [(''method'', JStr ''HEAD'')]"

definition create_request :: "'a page_scheme \<Rightarrow> js_object \<Rightarrow> event" where
  "create_request st row =
     Fetch (gradioUrl st row)
       [(''method'', JStr ''POST''), (''headers'', json_headers), (''body'', ui_body row)]"

definition open_window :: "'a page_scheme \<Rightarrow> js_object \<Rightarrow> event" where
  "open_window st row = WindowOpen (openUrl st row) ''_blank'' ''noopener noreferrer''"

text \<open>What a recorded request or window carries.\<close>

fun request_url :: "event \<Rightarrow> string" where
  "request_url (Fetch url options) = url"
| "request_url e = []"

fun request_model_uid :: "event \<Rightarrow> jsval" where
  "request_model_uid (Fetch url options) =
     (case get_prop (obj_get options ''body'') ''model_uid'' of
        Inl error \<Rightarrow> JUndefined | Inr uid \<Rightarrow> uid)"
| "request_model_uid e = JUndefined"

fun opened_url :: "event \<Rightarrow> string" where
  "opened_url (WindowOpen url target features) = url"
| "opened_url e = []"

section \<open>Properties of the filters\<close>

lemma and_then_Inr [simp]: "and_then (Inr x) f = f x"
  by (simp add: and_then_def)

lemma and_then_Inl [simp]: "and_then (Inl e) f = Inl e"
  by (simp add: and_then_def)

lemma typeof_string_iff: "typeof v = ''string'' \<longleftrightarrow> (\<exists>s. v = JStr s)"
  by (cases v) simp_all

lemma arr_indexOf_neg: "arr_indexOf xs v < 0 \<longleftrightarrow> v \<notin> set xs"
  by (induction xs) (auto simp: Let_def)

lemma filter_guarded_absent:
  assumes "registration = JUndefined \<or> registration = JNull \<or> typeof searchTerm \<noteq> ''string''"
  shows "filter_LaunchLLM searchTerm modelAbility registration = Inr False"
    and "filter_LaunchImage searchTerm registration = Inr False"
  using assms by (auto simp: filter_LaunchLLM_def filter_LaunchImage_def)

text \<open>
  C8. The filter has to return false, without raising, when the registration is absent or
  the search term is not a string. The filter of the LaunchModel view without a selector
  has no such guard: on the absent registration \<^verbatim>\<open>null\<close> it raises a TypeError, where the
  guarded filters of the other views return false.
\<close>

theorem filter_LaunchModel_absent_raises:
  "filter_LaunchModel (JStr '''') JNull = Inl TypeError
   \<and> filter_LaunchLLM (JStr '''') ''all'' JNull = Inr False
   \<and> filter_LaunchImage (JStr '''') JNull = Inr False"
  by (simp add: filter_LaunchModel_def filter_LaunchLLM_def filter_LaunchImage_def)

lemma obj_get_obj_set: "obj_get (obj_set kvs k v) k' = (if k' = k then v else obj_get kvs k')"
  by (induction kvs) (auto simp: obj_get_def)

lemma lowered_field_ok:
  assumes "get_prop registration f = Inr v" "lowerable v"
  shows "\<exists>s. lowered_field registration f = Inr s"
  using assms by (cases v) (auto simp: lowered_field_def lowerable_def split: if_splits)

text \<open>
  C9. When the ability selector is present (a non-empty string) and is not \<^verbatim>\<open>all\<close>, and
  the registration's \<^verbatim>\<open>model_ability\<close> list does not contain it, the filter of LaunchLLM
  (and of the LaunchModel view with a selector, which has the same body) returns false,
  whatever the search term is and whether or not it occurs in the name or the description.
  The registration is a record whose name and description are text or absent.
\<close>

theorem filter_LaunchLLM_ability_excludes:
  assumes sel: "modelAbility \<noteq> []" "modelAbility \<noteq> ''all''"
    and abil: "get_prop registration ''model_ability'' = Inr (JArr abilities)"
    and notin: "JStr modelAbility \<notin> set abilities"
    and name: "get_prop registration ''model_name'' = Inr name" "lowerable name"
    and descr: "get_prop registration ''model_description'' = Inr description" "lowerable description"
  shows "filter_LaunchLLM searchTerm modelAbility registration = Inr False"
proof -
  obtain n where n: "lowered_field registration ''model_name'' = Inr n"
    using lowered_field_ok[OF name] by blast
  obtain d where d: "lowered_field registration ''model_description'' = Inr d"
    using lowered_field_ok[OF descr] by blast
  have neg: "arr_indexOf abilities (JStr modelAbility) < 0"
    using notin by (simp add: arr_indexOf_neg)
  show ?thesis
  proof (cases "typeof searchTerm = ''string''")
    case False
    then show ?thesis by (simp add: filter_LaunchLLM_def)
  next
    case True
    then obtain s where s: "searchTerm = JStr s" by (auto simp: typeof_string_iff)
    show ?thesis
      using sel abil neg n d s by (simp add: filter_LaunchLLM_def)
  qed
qed

text \<open>
  The registration \<^verbatim>\<open>llama-2\<close> with the ability \<^verbatim>\<open>generate\<close> matches the term
  \<^verbatim>\<open>LLaMA\<close> under the selector \<^verbatim>\<open>all\<close> and is excluded under the selector \<^verbatim>\<open>chat\<close>.
\<close>

theorem filter_LaunchLLM_ability_excludes_witness:
  "filter_LaunchLLM (JStr ''LLaMA'') ''chat''
     (JObj [(''model_name'', JStr ''llama-2''), (''model_description'', JNull),
            (''model_ability'', JArr [JStr ''generate''])]) = Inr False
   \<and> filter_LaunchLLM (JStr ''LLaMA'') ''all''
     (JObj [(''model_name'', JStr ''llama-2''), (''model_description'', JNull),
            (''model_ability'', JArr [JStr ''generate''])]) = Inr True"
proof -
  have "filter_LaunchLLM (JStr ''LLaMA'') ''chat''
     (JObj [(''model_name'', JStr ''llama-2''), (''model_description'', JNull),
            (''model_ability'', JArr [JStr ''generate''])]) = Inr False"
    by (rule filter_LaunchLLM_ability_excludes
          [where abilities = "[JStr ''generate'']" and name = "JStr ''llama-2''" and description = JNull])
       (simp_all add: obj_get_def lowerable_def)
  moreover have "filter_LaunchLLM (JStr ''LLaMA'') ''all''
     (JObj [(''model_name'', JStr ''llama-2''), (''model_description'', JNull),
            (''model_ability'', JArr [JStr ''generate''])]) = Inr True"
    by (simp add: filter_LaunchLLM_def lowered_field_def obj_get_def toLowerCase_def lower_char_def)
  ultimately show ?thesis by simp
qed

section \<open>Properties of the HTTP client wrapper\<close>

lemma spread_JObj [simp]: "spread (JObj kvs) = kvs"
  by (simp add: spread_def)

text \<open>
  C2, as stated, fails where no token is stored: \<^verbatim>\<open>cookies.get('token')\<close> is then
  \<^verbatim>\<open>undefined\<close>, which is not the sentinel, and the wrapper attaches the header
  \<^verbatim>\<open>Authorization: Bearer undefined\<close> instead of passing the options through.
\<close>

theorem updateOptions_absent_token_counterexample:
  "cookies_get [] ''token'' = JUndefined
   \<and> updateOptions [] ''http://localhost:9997/v1/models'' (JObj [(''method'', JStr ''GET'')])
       = [(''method'', JStr ''GET''),
          (''headers'', JObj [(''Authorization'', JStr ''Bearer undefined'')])]
   \<and> updateOptions [] ''http://localhost:9997/v1/models'' (JObj [(''method'', JStr ''GET'')])
       \<noteq> [(''method'', JStr ''GET'')]"
  by (simp add: updateOptions_def cookies_get_def obj_get_def spread_def)

text \<open>
  C2, amended. The wrapper attaches \<^verbatim>\<open>Authorization: Bearer <token>\<close> exactly when the
  value read from the cookie \<^verbatim>\<open>token\<close> is not the sentinel \<^verbatim>\<open>no_auth\<close>, the absent
  token included (its text is \<^verbatim>\<open>undefined\<close>); the other headers and the other options are
  kept. When the token is the sentinel, the transport receives a copy of the options with
  nothing added.
\<close>

theorem updateOptions_sentinel:
  "(cookies_get store ''token'' = JStr ''no_auth'' \<longrightarrow>
      updateOptions store url options = spread options)
   \<and> (cookies_get store ''token'' \<noteq> JStr ''no_auth'' \<longrightarrow>
      request_header (updateOptions store url options) ''Authorization''
        = JStr (''Bearer '' @ js_to_string (cookies_get store ''token''))
      \<and> (\<forall>h. h \<noteq> ''Authorization'' \<longrightarrow>
            request_header (updateOptions store url options) h
              = request_header (spread options) h)
      \<and> (\<forall>k. k \<noteq> ''headers'' \<longrightarrow>
            obj_get (updateOptions store url options) k = obj_get (spread options) k))"
  by (simp add: updateOptions_def Let_def obj_get_obj_set request_header_def)

theorem updateOptions_sentinel_witness:
  "updateOptions [(''token'', ''no_auth'')] ''/v1/models'' (JObj [(''method'', JStr ''GET'')])
     = [(''method'', JStr ''GET'')]
   \<and> request_header
       (updateOptions [(''token'', ''abc'')] ''/v1/models'' (JObj [(''method'', JStr ''GET'')]))
       ''Authorization'' = JStr ''Bearer abc''
   \<and> obj_get (updateOptions [(''token'', ''abc'')] ''/v1/models'' (JObj [(''method'', JStr ''GET'')]))
       ''method'' = JStr ''GET''"
  using updateOptions_sentinel [of "[(''token'', ''no_auth'')]" "''/v1/models''" "JObj [(''method'', JStr ''GET'')]"]
        updateOptions_sentinel [of "[(''token'', ''abc'')]" "''/v1/models''" "JObj [(''method'', JStr ''GET'')]"]
  by (simp add: cookies_get_def obj_get_def)

section \<open>Properties of the launch views\<close>

lemma filter_is_builtin_readable:
  assumes "\<forall>v \<in> set regs. v \<noteq> JNull \<and> v \<noteq> JUndefined"
  shows "filter_is_builtin regs = Inr (filter is_builtin regs)"
  using assms
proof (induction regs)
  case Nil
  then show ?case by simp
next
  case (Cons v vs)
  then have "v \<noteq> JNull" "v \<noteq> JUndefined" by simp_all
  then obtain keep where k: "get_prop v ''is_builtin'' = Inr keep"
    by (cases v) simp_all
  with Cons show ?case by (simp add: is_builtin_def)
qed

lemma store_builtin_ok:
  assumes "response_json result = Inr (JArr regs)"
    and "\<forall>v \<in> set regs. v \<noteq> JNull \<and> v \<noteq> JUndefined"
  shows "registrationData (store_builtin result st) = filter is_builtin regs"
  using assms by (simp add: store_builtin_def filter_is_builtin_readable)

text \<open>
  C10. In the LLM, embedding and image launch views, an update that passes the in-flight guard and
  receives an array of registrations stores exactly the registrations whose \<^verbatim>\<open>is_builtin\<close>
  is truthy, in the order received; a registration whose \<^verbatim>\<open>is_builtin\<close> is false is
  not stored, so it is not displayed.
\<close>

theorem launch_views_store_builtin_only:
  assumes idle: "\<not> isCallingApi st" "\<not> isUpdatingModel st"
    and body: "response_json result = Inr (JArr regs)"
    and readable: "\<forall>v \<in> set regs. v \<noteq> JNull \<and> v \<noteq> JUndefined"
  shows "registrationData (LaunchLLM_update result st) = filter is_builtin regs
     \<and> registrationData (LaunchEmbedding_update result st) = filter is_builtin regs
     \<and> registrationData (LaunchImage_update result st) = filter is_builtin regs
     \<and> (\<forall>v \<in> set regs. get_prop v ''is_builtin'' = Inr (JBool False) \<longrightarrow>
           v \<notin> set (registrationData (LaunchLLM_update result st))
         \<and> v \<notin> set (registrationData (LaunchEmbedding_update result st))
         \<and> v \<notin> set (registrationData (LaunchImage_update result st)))"
proof -
  have a: "registrationData (LaunchLLM_update result st) = filter is_builtin regs"
    using idle by (simp add: LaunchLLM_update_def store_builtin_ok[OF body readable])
  have b: "registrationData (LaunchEmbedding_update result st) = filter is_builtin regs"
    using idle by (simp add: LaunchEmbedding_update_def store_builtin_ok[OF body readable])
  have c: "registrationData (LaunchImage_update result st) = filter is_builtin regs"
    using idle by (simp add: LaunchImage_update_def store_builtin_ok[OF body readable])
  show ?thesis
    unfolding a b c by (simp add: is_builtin_def)
qed

theorem launch_views_store_builtin_only_witness:
  "registrationData
     (LaunchLLM_update
        (Response 200 (Some (JArr [JObj [(''model_name'', JStr ''a''), (''is_builtin'', JBool True)],
                                   JObj [(''model_name'', JStr ''b''), (''is_builtin'', JBool False)]])))
        \<lparr>endPoint = ''http://localhost:9997'', cookies = [], effects = [],
         isCallingApi = False, isUpdatingModel = False, errorMsg = NoErrorMsg,
         registrationData = []\<rparr>)
   = [JObj [(''model_name'', JStr ''a''), (''is_builtin'', JBool True)]]"
  using launch_views_store_builtin_only
    [of "\<lparr>endPoint = ''http://localhost:9997'', cookies = [], effects = [],
         isCallingApi = False, isUpdatingModel = False, errorMsg = NoErrorMsg,
         registrationData = []\<rparr>"
        "Response 200 (Some (JArr [JObj [(''model_name'', JStr ''a''), (''is_builtin'', JBool True)],
                                   JObj [(''model_name'', JStr ''b''), (''is_builtin'', JBool False)]]))"
        "[JObj [(''model_name'', JStr ''a''), (''is_builtin'', JBool True)],
          JObj [(''model_name'', JStr ''b''), (''is_builtin'', JBool False)]]"]
  by (simp add: is_builtin_def obj_get_def)

section \<open>Properties of the list synchronisation\<close>

lemma for_each_entry_llm:
  "newLlmData (for_each_entry entries b)
     = newLlmData b @ filter (model_type_is ''LLM'') (rows_of entries)"
  by (induction entries arbitrary: b)
     (simp_all add: push_entry_def Let_def rows_of_def model_type_is_def)

lemma for_each_entry_embedding:
  "newEmbeddingModelData (for_each_entry entries b)
     = newEmbeddingModelData b @ filter (model_type_is ''embedding'') (rows_of entries)"
  by (induction entries arbitrary: b)
     (simp_all add: push_entry_def Let_def rows_of_def model_type_is_def)

lemma for_each_entry_image:
  "newImageModelData (for_each_entry entries b)
     = newImageModelData b @ filter (model_type_is ''image'') (rows_of entries)"
  by (induction entries arbitrary: b)
     (simp_all add: push_entry_def Let_def rows_of_def model_type_is_def)

lemma for_each_entry_rerank:
  "newRerankModelData (for_each_entry entries b)
     = newRerankModelData b @ filter (model_type_is ''rerank'') (rows_of entries)"
  by (induction entries arbitrary: b)
     (simp_all add: push_entry_def Let_def rows_of_def model_type_is_def)

lemma partition_mset:
  "mset (filter (model_type_is ''LLM'') rows) + mset (filter (model_type_is ''embedding'') rows)
   + mset (filter (model_type_is ''image'') rows) + mset (filter (model_type_is ''rerank'') rows)
   = mset (filter listed_type rows)"
  by (induction rows) (auto simp: listed_type_def model_type_is_def)

lemma RunningModels_update_lists:
  assumes "response_json result = Inr data" "object_entries data = Inr entries"
  shows "llmData (RunningModels_update result False st) = filter (model_type_is ''LLM'') (rows_of entries)"
    and "embeddingModelData (RunningModels_update result False st) = filter (model_type_is ''embedding'') (rows_of entries)"
    and "imageModelData (RunningModels_update result False st) = filter (model_type_is ''image'') (rows_of entries)"
    and "rerankModelData (RunningModels_update result False st) = filter (model_type_is ''rerank'') (rows_of entries)"
  using assms
  by (simp_all add: RunningModels_update_def partition_models_def Let_def empty_buckets_def
        for_each_entry_llm for_each_entry_embedding for_each_entry_image for_each_entry_rerank)

text \<open>
  C3. When the list endpoint returns an instance map, the refresh replaces each of the four
  lists by the rows of the entries whose \<^verbatim>\<open>model_type\<close> is that of the list, in the order
  of the entries. The four lists together hold each row of a listed type once for each time
  it occurs among the entries, and a row of any other type is in none of them.
\<close>

theorem refresh_partitions_by_model_type:
  assumes "response_json result = Inr data" "object_entries data = Inr entries"
    and "st' = RunningModels_update result False st"
  shows "llmData st' = filter (model_type_is ''LLM'') (rows_of entries)
     \<and> embeddingModelData st' = filter (model_type_is ''embedding'') (rows_of entries)
     \<and> imageModelData st' = filter (model_type_is ''image'') (rows_of entries)
     \<and> rerankModelData st' = filter (model_type_is ''rerank'') (rows_of entries)
     \<and> mset (llmData st') + mset (embeddingModelData st') + mset (imageModelData st')
         + mset (rerankModelData st') = mset (filter listed_type (rows_of entries))
     \<and> (\<forall>row \<in> set (rows_of entries). \<not> listed_type row \<longrightarrow>
           row \<notin> set (llmData st') \<and> row \<notin> set (embeddingModelData st')
         \<and> row \<notin> set (imageModelData st') \<and> row \<notin> set (rerankModelData st'))"
proof -
  note lists = RunningModels_update_lists[OF assms(1,2), of st, folded assms(3)]
  have parts: "mset (llmData st') + mset (embeddingModelData st') + mset (imageModelData st')
         + mset (rerankModelData st') = mset (filter listed_type (rows_of entries))"
    unfolding lists by (rule partition_mset)
  have dropped: "\<forall>row \<in> set (rows_of entries). \<not> listed_type row \<longrightarrow>
           row \<notin> set (llmData st') \<and> row \<notin> set (embeddingModelData st')
         \<and> row \<notin> set (imageModelData st') \<and> row \<notin> set (rerankModelData st')"
    unfolding lists by (simp add: listed_type_def)
  show ?thesis
    using lists parts dropped by blast
qed

theorem refresh_partitions_by_model_type_witness:
  "llmData
     (RunningModels_update
        (Response 200 (Some (JObj [(''m1'', JObj [(''model_type'', JStr ''LLM''), (''model_name'', JStr ''x'')]),
                                   (''m2'', JObj [(''model_type'', JStr ''audio''), (''model_name'', JStr ''y'')])])))
        False
        \<lparr>endPoint = ''http://localhost:9997'', cookies = [], effects = [],
         isCallingApi = False, isUpdatingModel = False, errorMsg = NoErrorMsg,
         llmData = [], embeddingModelData = [loading_row], imageModelData = [], rerankModelData = []\<rparr>)
    = [[(''model_type'', JStr ''LLM''), (''model_name'', JStr ''x''), (''id'', JStr ''m1''), (''url'', JStr ''m1'')]]
   \<and> embeddingModelData
     (RunningModels_update
        (Response 200 (Some (JObj [(''m1'', JObj [(''model_type'', JStr ''LLM''), (''model_name'', JStr ''x'')]),
                                   (''m2'', JObj [(''model_type'', JStr ''audio''), (''model_name'', JStr ''y'')])])))
        False
        \<lparr>endPoint = ''http://localhost:9997'', cookies = [], effects = [],
         isCallingApi = False, isUpdatingModel = False, errorMsg = NoErrorMsg,
         llmData = [], embeddingModelData = [loading_row], imageModelData = [], rerankModelData = []\<rparr>)
    = []"
  using refresh_partitions_by_model_type
    [of "Response 200 (Some (JObj [(''m1'', JObj [(''model_type'', JStr ''LLM''), (''model_name'', JStr ''x'')]),
                                   (''m2'', JObj [(''model_type'', JStr ''audio''), (''model_name'', JStr ''y'')])]))"
        "JObj [(''m1'', JObj [(''model_type'', JStr ''LLM''), (''model_name'', JStr ''x'')]),
               (''m2'', JObj [(''model_type'', JStr ''audio''), (''model_name'', JStr ''y'')])]"
        "[(''m1'', JObj [(''model_type'', JStr ''LLM''), (''model_name'', JStr ''x'')]),
          (''m2'', JObj [(''model_type'', JStr ''audio''), (''model_name'', JStr ''y'')])]"
        _
        "\<lparr>endPoint = ''http://localhost:9997'', cookies = [], effects = [],
         isCallingApi = False, isUpdatingModel = False, errorMsg = NoErrorMsg,
         llmData = [], embeddingModelData = [loading_row], imageModelData = [], rerankModelData = []\<rparr>",
     OF _ _ refl]
  by (simp add: rows_of_def new_row_def model_type_is_def obj_get_def)


lemma new_effects_append [simp]:
  "effects after = effects before @ es \<Longrightarrow> new_effects before after = es"
  by (simp add: new_effects_def)

lemma RunningModels_update_failure:
  assumes "and_then (response_json result) partition_models = Inl error"
  shows "RunningModels_update result False st
     = st\<lparr>effects := effects st @ [Fetch (endPoint st @ ''/v1/models/'') [(''method'', JStr ''GET'')], ConsoleError],
          isUpdatingModel := False\<rparr>"
  using assms by (simp add: RunningModels_update_def Let_def fetch_def emit_def)

lemma RunningModels_update_no_uncaught:
  "filter is_uncaught (effects (RunningModels_update result calling st)) = filter is_uncaught (effects st)"
  by (simp add: RunningModels_update_def Let_def fetch_def emit_def split: sum.splits)

lemma object_entries_own:
  "data \<noteq> JNull \<Longrightarrow> data \<noteq> JUndefined \<Longrightarrow> object_entries data = Inr (own_entries data)"
  by (cases data) simp_all

lemma RunningModels_update_success:
  assumes "and_then (response_json result) partition_models = Inr b"
  shows "effects (RunningModels_update result False st)
           = effects st @ [Fetch (endPoint st @ ''/v1/models/'') [(''method'', JStr ''GET'')]]"
    and "isUpdatingModel (RunningModels_update result False st) = False"
  using assms by (simp_all add: RunningModels_update_def Let_def fetch_def emit_def)

lemma RunningModels_update_frame:
  "isUpdatingModel (RunningModels_update result False st) = False"
  "isCallingApi (RunningModels_update result False st) = isCallingApi st"
  "errorMsg (RunningModels_update result False st) = errorMsg st"
  by (simp_all add: RunningModels_update_def Let_def fetch_def emit_def split: sum.splits)

text \<open>
  C7, as stated, fails for a response body that is JSON but not an instance map. The status
  is never read and any parsed value other than \<^verbatim>\<open>null\<close> has entries, so nothing is
  thrown: after an answer 500 whose body is an error object, and after a body that is the number 5,
  nothing is logged and the list that held \<^verbatim>\<open>m1\<close> is replaced by the empty list.
\<close>

theorem refresh_non_map_body_counterexample:
  "RunningModels_update (Response 500 (Some (JObj [(''error'', JObj [(''code'', JNum 500)])]))) False
        \<lparr>endPoint = ''http://localhost:9997'', cookies = [], effects = [],
         isCallingApi = False, isUpdatingModel = False, errorMsg = NoErrorMsg,
         llmData = [[(''id'', JStr ''m1'')]], embeddingModelData = [], imageModelData = [], rerankModelData = []\<rparr>
   = \<lparr>endPoint = ''http://localhost:9997'', cookies = [],
       effects = [Fetch ''http://localhost:9997/v1/models/'' [(''method'', JStr ''GET'')]],
       isCallingApi = False, isUpdatingModel = False, errorMsg = NoErrorMsg,
       llmData = [], embeddingModelData = [], imageModelData = [], rerankModelData = []\<rparr>
   \<and> RunningModels_update (Response 200 (Some (JNum 5))) False
        \<lparr>endPoint = ''http://localhost:9997'', cookies = [], effects = [],
         isCallingApi = False, isUpdatingModel = False, errorMsg = NoErrorMsg,
         llmData = [[(''id'', JStr ''m1'')]], embeddingModelData = [], imageModelData = [], rerankModelData = []\<rparr>
   = \<lparr>endPoint = ''http://localhost:9997'', cookies = [],
       effects = [Fetch ''http://localhost:9997/v1/models/'' [(''method'', JStr ''GET'')]],
       isCallingApi = False, isUpdatingModel = False, errorMsg = NoErrorMsg,
       llmData = [], embeddingModelData = [], imageModelData = [], rerankModelData = []\<rparr>"
  by (simp add: RunningModels_update_def Let_def fetch_def emit_def partition_models_def
        empty_buckets_def push_entry_def new_row_def obj_get_def indexed_def)

text \<open>
  C7, amended. The refresh never leaves an exception uncaught, and it always ends with the
  list-refresh flag cleared and with the other flag and the error slot as before. When the
  request fails in the transport, or the response body is not JSON, or it is the JSON
  \<^verbatim>\<open>null\<close> (on which \<^verbatim>\<open>Object.entries\<close> throws), the failure is caught and logged and the
  four lists are as before. Any other parsed body, whatever the status of the response and
  whatever its shape, is not a failure for the refresh: nothing is logged, and each list is
  replaced by the rows of its own model type among the entries of the body.
\<close>

theorem refresh_settles_without_exception:
  assumes "st' = RunningModels_update result False st"
  shows "isUpdatingModel st' = False
     \<and> isCallingApi st' = isCallingApi st \<and> errorMsg st' = errorMsg st
     \<and> filter is_uncaught (effects st') = filter is_uncaught (effects st)
     \<and> (result = Failed \<or> result = Response status None
          \<or> result = Response status (Some JNull) \<or> result = Response status (Some JUndefined) \<longrightarrow>
            llmData st' = llmData st \<and> embeddingModelData st' = embeddingModelData st
          \<and> imageModelData st' = imageModelData st \<and> rerankModelData st' = rerankModelData st
          \<and> new_effects st st'
              = [Fetch (endPoint st @ ''/v1/models/'') [(''method'', JStr ''GET'')], ConsoleError])
     \<and> (result = Response status (Some data) \<and> data \<noteq> JNull \<and> data \<noteq> JUndefined \<longrightarrow>
            llmData st' = filter (model_type_is ''LLM'') (rows_of (own_entries data))
          \<and> embeddingModelData st' = filter (model_type_is ''embedding'') (rows_of (own_entries data))
          \<and> imageModelData st' = filter (model_type_is ''image'') (rows_of (own_entries data))
          \<and> rerankModelData st' = filter (model_type_is ''rerank'') (rows_of (own_entries data))
          \<and> new_effects st st'
              = [Fetch (endPoint st @ ''/v1/models/'') [(''method'', JStr ''GET'')]])"
proof -
  have frame: "isUpdatingModel st' = False" "isCallingApi st' = isCallingApi st"
      "errorMsg st' = errorMsg st"
    unfolding assms by (rule RunningModels_update_frame)+
  have caught: "filter is_uncaught (effects st') = filter is_uncaught (effects st)"
    unfolding assms by (rule RunningModels_update_no_uncaught)
  have failing: "llmData st' = llmData st \<and> embeddingModelData st' = embeddingModelData st
          \<and> imageModelData st' = imageModelData st \<and> rerankModelData st' = rerankModelData st
          \<and> new_effects st st'
              = [Fetch (endPoint st @ ''/v1/models/'') [(''method'', JStr ''GET'')], ConsoleError]"
    if "result = Failed \<or> result = Response status None
          \<or> result = Response status (Some JNull) \<or> result = Response status (Some JUndefined)"
  proof -
    have "\<exists>error. and_then (response_json result) partition_models = Inl error"
      using that by (elim disjE) (simp_all add: partition_models_def)
    then obtain error where "and_then (response_json result) partition_models = Inl error" ..
    then have "st' = st\<lparr>effects := effects st @ [Fetch (endPoint st @ ''/v1/models/'') [(''method'', JStr ''GET'')], ConsoleError],
          isUpdatingModel := False\<rparr>"
      unfolding assms by (rule RunningModels_update_failure)
    then show ?thesis by simp
  qed
  have parsed: "llmData st' = filter (model_type_is ''LLM'') (rows_of (own_entries data))
          \<and> embeddingModelData st' = filter (model_type_is ''embedding'') (rows_of (own_entries data))
          \<and> imageModelData st' = filter (model_type_is ''image'') (rows_of (own_entries data))
          \<and> rerankModelData st' = filter (model_type_is ''rerank'') (rows_of (own_entries data))
          \<and> new_effects st st'
              = [Fetch (endPoint st @ ''/v1/models/'') [(''method'', JStr ''GET'')]]"
    if "result = Response status (Some data) \<and> data \<noteq> JNull \<and> data \<noteq> JUndefined"
  proof -
    have body: "response_json result = Inr data" using that by simp
    have entries: "object_entries data = Inr (own_entries data)"
      using that by (simp add: object_entries_own)
    have "and_then (response_json result) partition_models
            = Inr (for_each_entry (own_entries data) empty_buckets)"
      by (simp add: body entries partition_models_def)
    then have "effects st' = effects st @ [Fetch (endPoint st @ ''/v1/models/'') [(''method'', JStr ''GET'')]]"
      unfolding assms by (rule RunningModels_update_success(1))
    then have "new_effects st st' = [Fetch (endPoint st @ ''/v1/models/'') [(''method'', JStr ''GET'')]]"
      by (rule new_effects_append)
    with RunningModels_update_lists[OF body entries, of st, folded assms] show ?thesis
      by simp
  qed
  show ?thesis
    using frame caught failing parsed by blast
qed

theorem refresh_settles_without_exception_witness:
  "RunningModels_update (Response 500 None) False
        \<lparr>endPoint = ''http://localhost:9997'', cookies = [], effects = [],
         isCallingApi = False, isUpdatingModel = False, errorMsg = NoErrorMsg,
         llmData = [[(''id'', JStr ''m1'')]], embeddingModelData = [], imageModelData = [], rerankModelData = []\<rparr>
   = \<lparr>endPoint = ''http://localhost:9997'', cookies = [],
       effects = [Fetch ''http://localhost:9997/v1/models/'' [(''method'', JStr ''GET'')], ConsoleError],
       isCallingApi = False, isUpdatingModel = False, errorMsg = NoErrorMsg,
       llmData = [[(''id'', JStr ''m1'')]], embeddingModelData = [], imageModelData = [], rerankModelData = []\<rparr>
   \<and> llmData (RunningModels_update (Response 200 (Some (JArr []))) False
        \<lparr>endPoint = ''http://localhost:9997'', cookies = [], effects = [],
         isCallingApi = False, isUpdatingModel = False, errorMsg = NoErrorMsg,
         llmData = [[(''id'', JStr ''m1'')]], embeddingModelData = [], imageModelData = [], rerankModelData = []\<rparr>)
   = []"
  using refresh_settles_without_exception
    [where result = "Response 500 None" and status = 500
       and st = "\<lparr>endPoint = ''http://localhost:9997'', cookies = [], effects = [],
         isCallingApi = False, isUpdatingModel = False, errorMsg = NoErrorMsg,
         llmData = [[(''id'', JStr ''m1'')]], embeddingModelData = [], imageModelData = [], rerankModelData = []\<rparr>",
     OF refl]
    refresh_settles_without_exception
    [where result = "Response 200 (Some (JArr []))" and status = 200 and data = "JArr []"
       and st = "\<lparr>endPoint = ''http://localhost:9997'', cookies = [], effects = [],
         isCallingApi = False, isUpdatingModel = False, errorMsg = NoErrorMsg,
         llmData = [[(''id'', JStr ''m1'')]], embeddingModelData = [], imageModelData = [], rerankModelData = []\<rparr>",
     OF refl]
  by (simp add: RunningModels_update_def fetch_def emit_def rows_of_def indexed_def)

section \<open>Properties of terminate\<close>

lemma RunningModels_terminate_calls:
  assumes "\<not> isCallingApi st" "\<not> isUpdatingModel st"
  shows "isCallingApi (RunningModels_terminate del list row st) = False"
    and "effects (RunningModels_terminate del list row st)
           = effects st @ Fetch (closeUrl st row) [(''method'', JStr ''DELETE'')]
               # (case del of Failed \<Rightarrow> [ConsoleError] | Response status body \<Rightarrow> [])
               @ Fetch (endPoint st @ ''/v1/models/'') [(''method'', JStr ''GET'')]
               # (case and_then (response_json list) partition_models of
                    Inl error \<Rightarrow> [ConsoleError] | Inr b \<Rightarrow> [])"
  using assms
  by (simp_all add: RunningModels_terminate_def RunningModels_effect_def
        RunningModels_terminate_settled_def RunningModels_update_def Let_def fetch_def emit_def
        split: fetch_result.splits sum.splits)

lemma ModelDashboard_delete_calls:
  assumes "\<not> isCalling md"
  shows "isCalling (ModelDashboard_delete del list row md) = False"
    and "effects (ModelDashboard_delete del list row md)
           = effects md @ Fetch (closeUrl md row) [(''method'', JStr ''DELETE'')]
               # (case del of Failed \<Rightarrow> ConsoleError | Response status body \<Rightarrow> ConsoleLog)
               # Fetch (endPoint md @ ''/v1/models'') [(''method'', JStr ''GET'')]
               # (case and_then (response_json list) object_entries of
                    Inl error \<Rightarrow> [ConsoleError] | Inr entries \<Rightarrow> [])"
  using assms
  by (simp_all add: ModelDashboard_delete_def ModelDashboard_update_def Let_def fetch_def emit_def
        closeUrl_def split: fetch_result.splits sum.splits)

text \<open>
  C6. A terminate that passes the in-flight guard issues the DELETE, and when the DELETE settles, with
  any status or with a failure of the transport, the in-flight flag is false again and the
  list is fetched anew: in RunningModels by the effect that follows the flag, in the
  dashboard by the call of \<^verbatim>\<open>update\<close> in both callbacks. These two are the only requests.
\<close>

theorem terminate_clears_flag_and_refreshes:
  "(\<not> isCallingApi st \<and> \<not> isUpdatingModel st \<longrightarrow>
      isCallingApi (RunningModels_terminate del list row st) = False
      \<and> network_calls (new_effects st (RunningModels_terminate del list row st))
          = [Fetch (closeUrl st row) [(''method'', JStr ''DELETE'')],
             Fetch (endPoint st @ ''/v1/models/'') [(''method'', JStr ''GET'')]])
   \<and> (\<not> isCalling md \<longrightarrow>
      isCalling (ModelDashboard_delete del list row md) = False
      \<and> network_calls (new_effects md (ModelDashboard_delete del list row md))
          = [Fetch (closeUrl md row) [(''method'', JStr ''DELETE'')],
             Fetch (endPoint md @ ''/v1/models'') [(''method'', JStr ''GET'')]])"
proof (intro conjI impI)
  assume g: "\<not> isCallingApi st \<and> \<not> isUpdatingModel st"
  then show "isCallingApi (RunningModels_terminate del list row st) = False"
    by (simp add: RunningModels_terminate_calls(1))
  from g show "network_calls (new_effects st (RunningModels_terminate del list row st))
          = [Fetch (closeUrl st row) [(''method'', JStr ''DELETE'')],
             Fetch (endPoint st @ ''/v1/models/'') [(''method'', JStr ''GET'')]]"
    by (simp add: RunningModels_terminate_calls(2) new_effects_def network_calls_def
          split: fetch_result.splits sum.splits)
next
  assume g: "\<not> isCalling md"
  then show "isCalling (ModelDashboard_delete del list row md) = False"
    by (simp add: ModelDashboard_delete_calls(1))
  from g show "network_calls (new_effects md (ModelDashboard_delete del list row md))
          = [Fetch (closeUrl md row) [(''method'', JStr ''DELETE'')],
             Fetch (endPoint md @ ''/v1/models'') [(''method'', JStr ''GET'')]]"
    by (simp add: ModelDashboard_delete_calls(2) new_effects_def network_calls_def
          split: fetch_result.splits sum.splits)
qed

theorem terminate_clears_flag_and_refreshes_witness:
  "isCallingApi
     (RunningModels_terminate (Response 500 None) (Response 200 (Some (JObj [])))
        [(''id'', JStr ''m1''), (''url'', JStr ''m1'')]
        \<lparr>endPoint = ''http://localhost:9997'', cookies = [], effects = [],
         isCallingApi = False, isUpdatingModel = False, errorMsg = NoErrorMsg,
         llmData = [[(''id'', JStr ''m1''), (''url'', JStr ''m1'')]],
         embeddingModelData = [], imageModelData = [], rerankModelData = []\<rparr>) = False
   \<and> network_calls (effects
     (RunningModels_terminate (Response 500 None) (Response 200 (Some (JObj [])))
        [(''id'', JStr ''m1''), (''url'', JStr ''m1'')]
        \<lparr>endPoint = ''http://localhost:9997'', cookies = [], effects = [],
         isCallingApi = False, isUpdatingModel = False, errorMsg = NoErrorMsg,
         llmData = [[(''id'', JStr ''m1''), (''url'', JStr ''m1'')]],
         embeddingModelData = [], imageModelData = [], rerankModelData = []\<rparr>))
     = [Fetch ''http://localhost:9997/v1/models/m1'' [(''method'', JStr ''DELETE'')],
        Fetch ''http://localhost:9997/v1/models/'' [(''method'', JStr ''GET'')]]
   \<and> isCalling
     (ModelDashboard_delete Failed (Response 200 (Some (JObj [])))
        [(''id'', JStr ''m1''), (''url'', JStr ''m1'')]
        \<lparr>endPoint = ''http://localhost:9997'', cookies = [], effects = [],
         modelData = [[(''id'', JStr ''m1''), (''url'', JStr ''m1'')]], isCalling = False\<rparr>) = False
   \<and> network_calls (effects
     (ModelDashboard_delete Failed (Response 200 (Some (JObj [])))
        [(''id'', JStr ''m1''), (''url'', JStr ''m1'')]
        \<lparr>endPoint = ''http://localhost:9997'', cookies = [], effects = [],
         modelData = [[(''id'', JStr ''m1''), (''url'', JStr ''m1'')]], isCalling = False\<rparr>))
     = [Fetch ''http://localhost:9997/v1/models/m1'' [(''method'', JStr ''DELETE'')],
        Fetch ''http://localhost:9997/v1/models'' [(''method'', JStr ''GET'')]]"
  using terminate_clears_flag_and_refreshes
    [of "\<lparr>endPoint = ''http://localhost:9997'', cookies = [], effects = [],
         isCallingApi = False, isUpdatingModel = False, errorMsg = NoErrorMsg,
         llmData = [[(''id'', JStr ''m1''), (''url'', JStr ''m1'')]],
         embeddingModelData = [], imageModelData = [], rerankModelData = []\<rparr>"
        "Response 500 None" "Response 200 (Some (JObj []))"
        "[(''id'', JStr ''m1''), (''url'', JStr ''m1'')]"
        "\<lparr>endPoint = ''http://localhost:9997'', cookies = [], effects = [],
         modelData = [[(''id'', JStr ''m1''), (''url'', JStr ''m1'')]], isCalling = False\<rparr>"]
        terminate_clears_flag_and_refreshes
    [of "\<lparr>endPoint = ''http://localhost:9997'', cookies = [], effects = [],
         isCallingApi = False, isUpdatingModel = False, errorMsg = NoErrorMsg,
         llmData = [[(''id'', JStr ''m1''), (''url'', JStr ''m1'')]],
         embeddingModelData = [], imageModelData = [], rerankModelData = []\<rparr>"
        "Failed" "Response 200 (Some (JObj []))"
        "[(''id'', JStr ''m1''), (''url'', JStr ''m1'')]"
        "\<lparr>endPoint = ''http://localhost:9997'', cookies = [], effects = [],
         modelData = [[(''id'', JStr ''m1''), (''url'', JStr ''m1'')]], isCalling = False\<rparr>"]
  by (simp add: new_effects_def closeUrl_def obj_get_def)

section \<open>Properties of the open-UI flow\<close>

lemma RunningModels_launchWebUI_effects:
  assumes "\<not> isCallingApi st" "\<not> isUpdatingModel st"
  shows "effects (RunningModels_launchWebUI probe create list row st)
     = effects st @ probe_request st row
         # (case probe of
              Failed \<Rightarrow> [ConsoleError]
            | Response status body \<Rightarrow>
                if status = 404
                then [ConsoleLog, create_request st row]
                       @ (case response_json create of
                            Inr data \<Rightarrow> [open_window st row] | Inl error \<Rightarrow> [ConsoleError])
                else if response_ok status then [ConsoleLog, open_window st row]
                else [ConsoleError])
         @ list_request st
         # (case and_then (response_json list) partition_models of
              Inl error \<Rightarrow> [ConsoleError] | Inr b \<Rightarrow> [])"
  using assms
  by (simp add: RunningModels_launchWebUI_def RunningModels_effect_def
        RunningModels_probe_settled_def RunningModels_create_settled_def
        RunningModels_update_def Let_def fetch_def emit_def
        probe_request_def create_request_def open_window_def list_request_def
        openUrl_def gradioUrl_def
        split: fetch_result.splits sum.splits)

lemma is_fetch_requests [simp]:
  "is_fetch (probe_request st row)" "is_fetch (create_request st row)" "is_fetch (list_request st)"
  "\<not> is_fetch (open_window st row)"
  "\<not> is_open (probe_request st row)" "\<not> is_open (create_request st row)"
  "\<not> is_open (list_request st)" "is_open (open_window st row)"
  by (simp_all add: probe_request_def create_request_def list_request_def open_window_def)

text \<open>
  C4. In the open-UI flow of a row, once the in-flight guard is passed: when the probe answers 404, the
  probe and the POST that creates the UI are the two requests made before the window is
  opened, in this order, and the window is opened if the POST is answered with a JSON body;
  when the probe answers with a status from 200 to 299, the probe is the one request made
  before the window is opened; for any other status an error is logged and no window is
  opened. The one later request is the refresh of the list, which the effect on the
  in-flight flag issues after the flow has cleared the flag.
\<close>

theorem open_ui_flow_calls:
  assumes idle: "\<not> isCallingApi st" "\<not> isUpdatingModel st"
    and es: "es = new_effects st (RunningModels_launchWebUI probe create list row st)"
  shows "(probe = Response 404 body \<longrightarrow>
            network_calls es = [probe_request st row, create_request st row, list_request st]
          \<and> (case response_json create of
                Inr data \<Rightarrow>
                  network_calls (before_open es) = [probe_request st row, create_request st row]
                  \<and> filter is_open es = [open_window st row]
              | Inl error \<Rightarrow> filter is_open es = [] \<and> ConsoleError \<in> set es))
     \<and> (probe = Response status body \<and> response_ok status \<longrightarrow>
            network_calls es = [probe_request st row, list_request st]
          \<and> network_calls (before_open es) = [probe_request st row]
          \<and> filter is_open es = [open_window st row])
     \<and> (probe = Response status body \<and> status \<noteq> 404 \<and> \<not> response_ok status \<longrightarrow>
            network_calls es = [probe_request st row, list_request st]
          \<and> filter is_open es = [] \<and> ConsoleError \<in> set es)"
proof -
  note eff = new_effects_append[OF RunningModels_launchWebUI_effects[OF idle, of probe create list row], folded es]
  show ?thesis
    unfolding eff
    by (auto simp: network_calls_def before_open_def response_ok_def split: sum.splits)
qed

theorem open_ui_flow_calls_witness:
  "network_calls (before_open (effects
     (RunningModels_launchWebUI (Response 404 None) (Response 200 (Some (JObj []))) Failed
        [(''model_name'', JStr ''x''), (''id'', JStr ''m1''), (''url'', JStr ''m1'')]
        \<lparr>endPoint = ''http://localhost:9997'', cookies = [], effects = [],
         isCallingApi = False, isUpdatingModel = False, errorMsg = NoErrorMsg,
         llmData = [], embeddingModelData = [], imageModelData = [], rerankModelData = []\<rparr>)))
   = [Fetch ''http://localhost:9997/m1'' [(''method'', JStr ''HEAD'')],
      Fetch ''http://localhost:9997/v1/ui/m1''
        [(''method'', JStr ''POST''),
         (''headers'', JObj [(''Content-Type'', JStr ''application/json'')]),
         (''body'', JObj [(''model_name'', JStr ''x'')])]]
   \<and> network_calls (before_open (effects
     (RunningModels_launchWebUI (Response 200 None) Failed Failed
        [(''model_name'', JStr ''x''), (''id'', JStr ''m1''), (''url'', JStr ''m1'')]
        \<lparr>endPoint = ''http://localhost:9997'', cookies = [], effects = [],
         isCallingApi = False, isUpdatingModel = False, errorMsg = NoErrorMsg,
         llmData = [], embeddingModelData = [], imageModelData = [], rerankModelData = []\<rparr>)))
   = [Fetch ''http://localhost:9997/m1'' [(''method'', JStr ''HEAD'')]]
   \<and> filter is_open (effects
     (RunningModels_launchWebUI (Response 500 None) Failed Failed
        [(''model_name'', JStr ''x''), (''id'', JStr ''m1''), (''url'', JStr ''m1'')]
        \<lparr>endPoint = ''http://localhost:9997'', cookies = [], effects = [],
         isCallingApi = False, isUpdatingModel = False, errorMsg = NoErrorMsg,
         llmData = [], embeddingModelData = [], imageModelData = [], rerankModelData = []\<rparr>))
   = []"
  using open_ui_flow_calls
    [where st = "\<lparr>endPoint = ''http://localhost:9997'', cookies = [], effects = [],
         isCallingApi = False, isUpdatingModel = False, errorMsg = NoErrorMsg,
         llmData = [], embeddingModelData = [], imageModelData = [], rerankModelData = []\<rparr>"
       and probe = "Response 404 None" and create = "Response 200 (Some (JObj []))" and list = Failed
       and row = "[(''model_name'', JStr ''x''), (''id'', JStr ''m1''), (''url'', JStr ''m1'')]"
       and body = None and status = 404, OF _ _ refl]
    open_ui_flow_calls
    [where st = "\<lparr>endPoint = ''http://localhost:9997'', cookies = [], effects = [],
         isCallingApi = False, isUpdatingModel = False, errorMsg = NoErrorMsg,
         llmData = [], embeddingModelData = [], imageModelData = [], rerankModelData = []\<rparr>"
       and probe = "Response 200 None" and create = Failed and list = Failed
       and row = "[(''model_name'', JStr ''x''), (''id'', JStr ''m1''), (''url'', JStr ''m1'')]"
       and body = None and status = 200, OF _ _ refl]
    open_ui_flow_calls
    [where st = "\<lparr>endPoint = ''http://localhost:9997'', cookies = [], effects = [],
         isCallingApi = False, isUpdatingModel = False, errorMsg = NoErrorMsg,
         llmData = [], embeddingModelData = [], imageModelData = [], rerankModelData = []\<rparr>"
       and probe = "Response 500 None" and create = Failed and list = Failed
       and row = "[(''model_name'', JStr ''x''), (''id'', JStr ''m1''), (''url'', JStr ''m1'')]"
       and body = None and status = 500, OF _ _ refl]
  by (simp add: new_effects_def response_ok_def probe_request_def create_request_def
        openUrl_def gradioUrl_def obj_get_def ui_body_def ui_fields_def json_stringify_def
        json_headers_def)

section \<open>Properties of the two-step launch\<close>

lemma obj_get_stringified:
  assumes "obj_get kvs k = v" "v \<noteq> JUndefined"
  shows "get_prop (json_stringify kvs) k = Inr v"
  using assms
  by (induction kvs) (auto simp: json_stringify_def obj_get_def split: if_splits)

lemma ModelCard_launchModel_effects:
  "effects (ModelCard_launchModel uuid first second url jsonData st)
     = effects st
       @ [ConsoleLog,
          Fetch (url @ ''/v1/models'')
            [(''method'', JStr ''POST''), (''headers'', json_headers),
             (''body'', json_stringify
                (obj_set (obj_set (spread jsonData) ''model_uid'' (JStr uuid)) ''endpoint'' (JStr url)))]]
       @ (case first of
            Failed \<Rightarrow> [ConsoleError]
          | Response status1 body1 \<Rightarrow>
              [ConsoleLog, ConsoleLog, ConsoleLog,
               Fetch (url @ ''/v1/gradio/'' @ uuid)
                 [(''method'', JStr ''POST''), (''headers'', json_headers),
                  (''body'', json_stringify
                     (obj_set (obj_set (spread jsonData) ''model_uid'' (JStr uuid)) ''endpoint'' (JStr url)))]]
              @ (case second of
                   Failed \<Rightarrow> [ConsoleError]
                 | Response status2 body2 \<Rightarrow>
                     [ConsoleLog, ConsoleLog, ConsoleLog,
                      WindowOpen (url @ ''/'' @ uuid) ''_blank'' ''noreferrer'']))"
  by (simp add: ModelCard_launchModel_def Let_def fetch_def emit_def split: fetch_result.splits)

lemma launch_body_uid:
  "get_prop (json_stringify
      (obj_set (obj_set (spread jsonData) ''model_uid'' (JStr uuid)) ''endpoint'' (JStr url)))
     ''model_uid'' = Inr (JStr uuid)"
  by (rule obj_get_stringified) (simp_all add: obj_get_obj_set)

text \<open>
  C5. The two-step launch of a model card calls \<^verbatim>\<open>uuidv1()\<close> once and uses its value in
  the body of the POST that creates the instance, in the path (and the body) of the POST
  that builds the UI page, and in the URL that is opened. The requests are made in this
  order, and the second is made only when the first has been answered: when the first fails
  in the transport it is the only request. The window is opened only when both requests
  have been answered.
\<close>

theorem two_step_launch_uses_one_identifier:
  assumes "es = new_effects st (ModelCard_launchModel uuid first second url jsonData st)"
  shows "map request_url (network_calls es)
           = (url @ ''/v1/models'')
               # (case first of Failed \<Rightarrow> []
                  | Response status1 body1 \<Rightarrow> [url @ ''/v1/gradio/'' @ uuid])
     \<and> map request_model_uid (network_calls es)
           = JStr uuid # (case first of Failed \<Rightarrow> [] | Response status1 body1 \<Rightarrow> [JStr uuid])
     \<and> map opened_url (filter is_open es)
           = (case first of Failed \<Rightarrow> []
              | Response status1 body1 \<Rightarrow>
                  (case second of Failed \<Rightarrow> []
                   | Response status2 body2 \<Rightarrow> [url @ ''/'' @ uuid]))"
  unfolding assms new_effects_append[OF ModelCard_launchModel_effects]
  by (simp add: network_calls_def obj_get_def launch_body_uid split: fetch_result.splits)

theorem two_step_launch_uses_one_identifier_witness:
  "map request_url (network_calls (effects
     (ModelCard_launchModel ''u-1'' (Response 200 None) (Response 200 None) ''http://localhost:9997''
        (JObj [(''model_uid'', JStr ''old''), (''model_name'', JStr ''x'')])
        \<lparr>endPoint = ''http://localhost:9997'', cookies = [], effects = [],
         isCallingApi = False, isUpdatingModel = False, errorMsg = NoErrorMsg\<rparr>)))
     = [''http://localhost:9997/v1/models'', ''http://localhost:9997/v1/gradio/u-1'']
   \<and> map request_model_uid (network_calls (effects
     (ModelCard_launchModel ''u-1'' (Response 200 None) (Response 200 None) ''http://localhost:9997''
        (JObj [(''model_uid'', JStr ''old''), (''model_name'', JStr ''x'')])
        \<lparr>endPoint = ''http://localhost:9997'', cookies = [], effects = [],
         isCallingApi = False, isUpdatingModel = False, errorMsg = NoErrorMsg\<rparr>)))
     = [JStr ''u-1'', JStr ''u-1'']
   \<and> map opened_url (filter is_open (effects
     (ModelCard_launchModel ''u-1'' (Response 200 None) (Response 200 None) ''http://localhost:9997''
        (JObj [(''model_uid'', JStr ''old''), (''model_name'', JStr ''x'')])
        \<lparr>endPoint = ''http://localhost:9997'', cookies = [], effects = [],
         isCallingApi = False, isUpdatingModel = False, errorMsg = NoErrorMsg\<rparr>)))
     = [''http://localhost:9997/u-1'']
   \<and> map request_url (network_calls (effects
     (ModelCard_launchModel ''u-1'' Failed (Response 200 None) ''http://localhost:9997''
        (JObj [(''model_uid'', JStr ''old''), (''model_name'', JStr ''x'')])
        \<lparr>endPoint = ''http://localhost:9997'', cookies = [], effects = [],
         isCallingApi = False, isUpdatingModel = False, errorMsg = NoErrorMsg\<rparr>)))
     = [''http://localhost:9997/v1/models'']"
  using two_step_launch_uses_one_identifier
    [where st = "\<lparr>endPoint = ''http://localhost:9997'', cookies = [], effects = [],
         isCallingApi = False, isUpdatingModel = False, errorMsg = NoErrorMsg\<rparr>"
       and uuid = "''u-1''" and first = "Response 200 None" and second = "Response 200 None"
       and url = "''http://localhost:9997''"
       and jsonData = "JObj [(''model_uid'', JStr ''old''), (''model_name'', JStr ''x'')]",
     OF refl]
    two_step_launch_uses_one_identifier
    [where st = "\<lparr>endPoint = ''http://localhost:9997'', cookies = [], effects = [],
         isCallingApi = False, isUpdatingModel = False, errorMsg = NoErrorMsg\<rparr>"
       and uuid = "''u-1''" and first = Failed and second = "Response 200 None"
       and url = "''http://localhost:9997''"
       and jsonData = "JObj [(''model_uid'', JStr ''old''), (''model_name'', JStr ''x'')]",
     OF refl]
  by (simp add: new_effects_def)

section \<open>Properties of the in-flight guard of launch\<close>

lemma ModelCard_disabled_iff:
  "ModelCard_disabled st \<longleftrightarrow> isCallingApi st \<or> isUpdatingModel st"
  by (cases "isCallingApi st"; cases "isUpdatingModel st") (simp_all add: ModelCard_disabled_def)

text \<open>
  \<^verbatim>\<open>launchModel\<close> of ModelCard tests no flag itself; what keeps it from running while a
  flag is true is the disabled button, its one call site. Called directly in such a state it
  would issue the POST.
\<close>

lemma ModelCard_launchModel_no_inner_guard:
  "network_calls (effects
     (ModelCard_launchModel ''u-1'' Failed Failed ''http://localhost:9997'' (JObj [])
        \<lparr>endPoint = ''http://localhost:9997'', cookies = [], effects = [],
         isCallingApi = True, isUpdatingModel = False, errorMsg = NoErrorMsg\<rparr>))
   = [Fetch ''http://localhost:9997/v1/models''
        [(''method'', JStr ''POST''),
         (''headers'', JObj [(''Content-Type'', JStr ''application/json'')]),
         (''body'', JObj [(''model_uid'', JStr ''u-1''), (''endpoint'', JStr ''http://localhost:9997'')])]]"
  by (simp add: ModelCard_launchModel_def Let_def fetch_def emit_def network_calls_def
        json_headers_def json_stringify_def)

text \<open>
  C1. A launch invoked while either in-flight flag (mutating call or list refresh) is true
  is a no-op: it makes no request and leaves the client state (flags, error slot, view
  state, recorded events) as it was. For an audio card the invocation is the call of
  \<^verbatim>\<open>launchModel\<close>, which returns at its first test; for a model card it is the click on the
  launch button, which is disabled exactly while either flag is true.
\<close>

theorem launch_guarded_while_in_flight:
  assumes "isCallingApi st \<or> isUpdatingModel st"
  shows "AudioCard_launchModel result url model modelUID st = st
     \<and> network_calls (new_effects st (AudioCard_launchModel result url model modelUID st)) = []
     \<and> ModelCard_disabled st
     \<and> ModelCard_onClick uuid first second url jsonData st = st
     \<and> network_calls (new_effects st (ModelCard_onClick uuid first second url jsonData st)) = []"
proof -
  have audio: "AudioCard_launchModel result url model modelUID st = st"
    using assms by (auto simp: AudioCard_launchModel_def)
  have disabled: "ModelCard_disabled st"
    using assms by (simp add: ModelCard_disabled_iff)
  then have card: "ModelCard_onClick uuid first second url jsonData st = st"
    by (simp add: ModelCard_onClick_def)
  show ?thesis
    unfolding audio card using disabled by (simp add: new_effects_def network_calls_def)
qed

theorem launch_guarded_while_in_flight_witness:
  "AudioCard_launchModel (Response 200 None) ''http://localhost:9997''
      (JObj [(''model_name'', JStr ''whisper'')]) []
      \<lparr>endPoint = ''http://localhost:9997'', cookies = [], effects = [],
       isCallingApi = False, isUpdatingModel = True, errorMsg = NoErrorMsg\<rparr>
    = \<lparr>endPoint = ''http://localhost:9997'', cookies = [], effects = [],
       isCallingApi = False, isUpdatingModel = True, errorMsg = NoErrorMsg\<rparr>
   \<and> ModelCard_onClick ''u-1'' Failed Failed ''http://localhost:9997'' (JObj [])
      \<lparr>endPoint = ''http://localhost:9997'', cookies = [], effects = [],
       isCallingApi = False, isUpdatingModel = True, errorMsg = NoErrorMsg\<rparr>
    = \<lparr>endPoint = ''http://localhost:9997'', cookies = [], effects = [],
       isCallingApi = False, isUpdatingModel = True, errorMsg = NoErrorMsg\<rparr>"
  using launch_guarded_while_in_flight
    [where st = "\<lparr>endPoint = ''http://localhost:9997'', cookies = [], effects = [],
       isCallingApi = False, isUpdatingModel = True, errorMsg = NoErrorMsg\<rparr>"
       and result = "Response 200 None" and url = "''http://localhost:9997''"
       and model = "JObj [(''model_name'', JStr ''whisper'')]" and modelUID = "[]"
       and uuid = "''u-1''" and first = Failed and second = Failed and jsonData = "JObj []"]
  by simp

end
